theory Spec2Isabelle
  imports Main "HOL-Library.AList"
begin

section \<open>The recordsets controller of the v2 API\<close>

text \<open>
  A shallow embedding of \<^verbatim>\<open>designate/api/v2/controllers/recordsets.py\<close>: the class
  \<^verbatim>\<open>RecordSetsController\<close> with its five handlers \<^verbatim>\<open>get_one\<close>, \<^verbatim>\<open>get_all\<close>,
  \<^verbatim>\<open>post_all\<close>, \<^verbatim>\<open>put_one\<close> and \<^verbatim>\<open>delete_one\<close>.

  The handlers talk to three collaborators whose code lives in other modules: the central
  service (\<^verbatim>\<open>self.central_api\<close>), the object adapter (\<^verbatim>\<open>DesignateAdapter\<close>, together
  with \<^verbatim>\<open>RecordSet.validate\<close>) and the helpers \<^verbatim>\<open>utils.get_paging_params\<close> and
  \<^verbatim>\<open>_apply_filter_params\<close>. The first two are parameters of every handler; the two
  helpers are modelled from the specification. The decorator \<^verbatim>\<open>utils.validate_uuid\<close> runs
  before a handler's body and is not part of this model: identifiers are plain strings.
\<close>

subsection \<open>Exceptions\<close>

text \<open>
  The exception classes of \<^verbatim>\<open>designate.exceptions\<close> that matter here, each with its
  message. \<open>Failure\<close> stands for every other exception a collaborator may raise.
\<close>

datatype error =
    BadRequest string
  | NotFound string
  | ValidationError string
  | Failure string

text \<open>
  A handler ends with an exception either because one of its own \<^verbatim>\<open>raise\<close> statements
  ran (\<open>Raised\<close>) or because a call it made raised and the exception went through
  (\<open>Propagated\<close>).
\<close>

datatype failure = Raised error | Propagated error

fun exception :: "failure \<Rightarrow> error" where
  "exception (Raised e) = e"
| "exception (Propagated e) = e"

subsection \<open>Objects\<close>

text \<open>
  Modelled from the spec: the classes \<^verbatim>\<open>RecordSet\<close>, \<^verbatim>\<open>Record\<close> and the zone object of
  \<^verbatim>\<open>designate.objects\<close> are not in this file of the repository; their fields are the ones the
  data model of the specification lists and the controller reads. A field that a fresh
  \<^verbatim>\<open>RecordSet()\<close> leaves unset reads as \<^verbatim>\<open>None\<close>; \<^verbatim>\<open>managed\<close> is read for its truth
  value only, so unset and false coincide.
\<close>

record zone =
  zone_id :: string
  zone_name :: string

record recordset =
  rs_id :: "string option"
  rs_domain_id :: "string option"
  rs_name :: "string option"
  rs_type :: "string option"
  rs_ttl :: "int option"
  rs_records :: "string list"
  rs_managed :: bool
  rs_status :: "string option"

record dns_record =
  rec_recordset_id :: "string option"
  rec_domain_id :: "string option"
  rec_data :: string

definition RecordSet :: recordset where
  "RecordSet = \<lparr>rs_id = None, rs_domain_id = None, rs_name = None, rs_type = None,
     rs_ttl = None, rs_records = [], rs_managed = False, rs_status = None\<rparr>"

subsection \<open>Request, response and caller context\<close>

text \<open>
  \<^verbatim>\<open>pecan.request\<close> and \<^verbatim>\<open>pecan.response\<close> are ambient objects in the source; here the
  request is an argument and the response is passed in and returned updated.
  \<open>body_dict\<close> is the decoded JSON body: decoding is done by the request class, outside
  this file, and a request whose body does not decode never reaches the code modelled here.
\<close>

record caller_context =
  ctx_tenant :: string
  edit_managed_records :: bool

datatype jvalue = JString string | JInt int | JList "string list"

type_synonym body = "(string \<times> jvalue) list"

record request =
  req_context :: caller_context
  body_dict :: body
  host_url :: string

record response =
  status_int :: int
  resp_headers :: "(string \<times> string) list"

text \<open>
  Modelled from the spec: the rendering of a recordset in the schema of the API is made by
  \<^verbatim>\<open>DesignateAdapter.render\<close>, which is not in this file of the repository. The
  specification says that the rendered representation includes a self link
  (\<^verbatim>\<open>links.self\<close>), which is what \<^verbatim>\<open>recordset['links']['self']\<close> reads.
\<close>

record rendered =
  rendered_fields :: "(string \<times> jvalue) list"
  links_self :: string

type_synonym criterion = "(string \<times> string) list"

type_synonym params = "(string \<times> string) list"

subsection \<open>Collaborators\<close>

text \<open>
  The central service. Every call takes the state of the service and returns the next one
  with its answer; \<open>Inl\<close> is the exception the call raises.
\<close>

record 's central_api =
  get_domain :: "caller_context \<Rightarrow> string \<Rightarrow> 's \<Rightarrow> (error + zone) \<times> 's"
  get_recordset :: "caller_context \<Rightarrow> string \<Rightarrow> string \<Rightarrow> 's \<Rightarrow> (error + recordset) \<times> 's"
  find_recordsets :: "caller_context \<Rightarrow> criterion \<Rightarrow> string option \<Rightarrow> nat \<Rightarrow> string option
     \<Rightarrow> string \<Rightarrow> 's \<Rightarrow> (error + recordset list) \<times> 's"
  find_records :: "caller_context \<Rightarrow> criterion \<Rightarrow> 's \<Rightarrow> (error + dns_record list) \<times> 's"
  create_recordset :: "caller_context \<Rightarrow> string \<Rightarrow> recordset \<Rightarrow> 's \<Rightarrow> (error + recordset) \<times> 's"
  update_recordset :: "caller_context \<Rightarrow> recordset \<Rightarrow> 's \<Rightarrow> (error + recordset) \<times> 's"
  delete_recordset :: "caller_context \<Rightarrow> string \<Rightarrow> string \<Rightarrow> 's \<Rightarrow> (error + recordset) \<times> 's"

text \<open>
  The object adapter for the format \<^verbatim>\<open>'API_v2'\<close> and the validation of a recordset
  object. \<open>validate\<close> answers the exception it raises, if any.
\<close>

record adapter =
  parse :: "body \<Rightarrow> recordset \<Rightarrow> error + recordset"
  validate :: "recordset \<Rightarrow> error option"
  render :: "request \<Rightarrow> recordset \<Rightarrow> rendered"
  render_list :: "request \<Rightarrow> recordset list \<Rightarrow> rendered list"

text \<open>The calls a handler makes to the central service, in the order it makes them.\<close>

datatype call =
    GetDomain string
  | GetRecordset string string
  | FindRecordsets criterion "string option" nat "string option" string
  | FindRecords criterion
  | CreateRecordset string recordset
  | UpdateRecordset recordset
  | DeleteRecordset string string

type_synonym 's world = "'s \<times> call list"

definition invoke ::
  "call \<Rightarrow> ('s \<Rightarrow> (error + 'a) \<times> 's) \<Rightarrow> 's world \<Rightarrow> (failure + 'a) \<times> 's world" where
  "invoke c f w =
     (case f (fst w) of
        (Inl e, s') \<Rightarrow> (Inl (Propagated e), (s', snd w @ [c]))
      | (Inr x, s') \<Rightarrow> (Inr x, (s', snd w @ [c])))"

text \<open>The calls made during a handler's run, read off its outcome.\<close>

definition calls_of :: "'r \<times> 's world \<Rightarrow> call list" where
  "calls_of out = snd (snd out)"

subsection \<open>Paging and filter parameters\<close>

record api_config =
  max_limit :: nat
  default_limit :: nat

definition digit_val :: "char \<Rightarrow> nat option" where
  "digit_val c =
     (let n = (of_char c :: nat) in if 48 \<le> n \<and> n \<le> 57 then Some (n - 48) else None)"

fun decimal :: "nat \<Rightarrow> string \<Rightarrow> nat option" where
  "decimal acc [] = Some acc"
| "decimal acc (c # cs) =
     (case digit_val c of None \<Rightarrow> None | Some d \<Rightarrow> decimal (10 * acc + d) cs)"

definition int_of_string :: "string \<Rightarrow> nat option" where
  "int_of_string s = (if s = [] then None else decimal 0 s)"

definition paging_keys :: "string list" where
  "paging_keys = [''marker'', ''limit'', ''sort_key'', ''sort_dir'']"

text \<open>
  Modelled from the spec: \<^verbatim>\<open>utils.get_paging_params\<close> is called by \<^verbatim>\<open>get_all\<close> and is
  not in this file of the repository. The specification (Query Translator): it extracts
  \<^verbatim>\<open>marker\<close> (optional), \<^verbatim>\<open>limit\<close> (a positive integer bounded by a configured
  maximum; absent means a default page size), \<^verbatim>\<open>sort_key\<close> (must be in the allowed set,
  else a validation error) and \<^verbatim>\<open>sort_dir\<close> (\<^verbatim>\<open>asc\<close> or \<^verbatim>\<open>desc\<close>, default
  \<^verbatim>\<open>asc\<close>). The configured maximum and the default page size are the parameter \<open>cfg\<close>.
\<close>

definition get_paging_params ::
  "api_config \<Rightarrow> params \<Rightarrow> string list
     \<Rightarrow> error + (string option \<times> nat \<times> string option \<times> string)" where
  "get_paging_params cfg ps sort_keys =
     (let marker = map_of ps ''marker'';
          sort_key' = map_of ps ''sort_key'';
          sort_dir = map_of ps ''sort_dir'';
          limit = (case map_of ps ''limit'' of
                     None \<Rightarrow> Some (default_limit cfg)
                   | Some l \<Rightarrow>
                       (case int_of_string l of
                          None \<Rightarrow> None
                        | Some n \<Rightarrow> if 0 < n \<and> n \<le> max_limit cfg then Some n else None))
      in case limit of
           None \<Rightarrow> Inl (ValidationError ''limit is not a positive integer within the maximum'')
         | Some n \<Rightarrow>
             if (case sort_key' of None \<Rightarrow> False | Some k \<Rightarrow> k \<notin> set sort_keys)
             then Inl (ValidationError ''sort key is not in the allowed set'')
             else (case sort_dir of
                     None \<Rightarrow> Inr (marker, n, sort_key', ''asc'')
                   | Some d \<Rightarrow>
                       if d = ''asc'' \<or> d = ''desc'' then Inr (marker, n, sort_key', d)
                       else Inl (ValidationError ''sort direction is neither asc nor desc'')))"

text \<open>
  Modelled from the spec: \<^verbatim>\<open>_apply_filter_params\<close> is a method of the base class
  \<^verbatim>\<open>rest.RestController\<close>, which is not in this file of the repository. The specification
  (Query Translator): it extracts equality filters restricted to the allow-list; a
  parameter outside the pagination keys and the allow-list fails with a
  \<^verbatim>\<open>BadRequest\<close>; filter values are passed through unmodified.
\<close>

definition apply_filter_params :: "params \<Rightarrow> string list \<Rightarrow> criterion \<Rightarrow> error + criterion" where
  "apply_filter_params ps accepted_filters criterion =
     (if list_ex (\<lambda>k. k \<notin> set accepted_filters \<and> k \<notin> set paging_keys) (map fst ps)
      then Inl (BadRequest ''Invalid filter parameter'')
      else Inr (foldl (\<lambda>c k. case map_of ps k of None \<Rightarrow> c | Some v \<Rightarrow> AList.update k v c)
                  criterion accepted_filters))"

subsection \<open>The controller\<close>

definition SORT_KEYS :: "string list" where
  "SORT_KEYS = [''created_at'', ''id'', ''updated_at'', ''domain_id'', ''tenant_id'',
                ''name'', ''type'', ''ttl'', ''records'']"

text \<open>The truth value of \<^verbatim>\<open>data\<close>, which is \<^verbatim>\<open>None\<close> or a string.\<close>

fun truthy :: "string option \<Rightarrow> bool" where
  "truthy None = False"
| "truthy (Some d) = (d \<noteq> [])"

text \<open>\<^verbatim>\<open>get_one\<close>: one call to the central service, rendered.\<close>

definition get_one ::
  "'s central_api \<Rightarrow> adapter \<Rightarrow> request \<Rightarrow> string \<Rightarrow> string \<Rightarrow> 's world
     \<Rightarrow> (failure + rendered) \<times> 's world" where
  "get_one api ad req zid rid w =
     (case invoke (GetRecordset zid rid) (get_recordset api (req_context req) zid rid) w of
        (Inl e, w1) \<Rightarrow> (Inl e, w1)
      | (Inr recordset, w1) \<Rightarrow> (Inr (render ad req recordset), w1))"

text \<open>
  \<^verbatim>\<open>get_all\<close>: the zone lookup, the paging parameters, the filter parameters, the
  recordset query and, for a true \<^verbatim>\<open>data\<close>, the record query and the loop that keeps the
  recordsets whose id is among the \<^verbatim>\<open>recordset_id\<close>s of the records found.
\<close>

definition get_all ::
  "api_config \<Rightarrow> 's central_api \<Rightarrow> adapter \<Rightarrow> request \<Rightarrow> string \<Rightarrow> params \<Rightarrow> 's world
     \<Rightarrow> (failure + rendered list) \<times> 's world" where
  "get_all cfg api ad req zid ps w =
     (let ctx = req_context req in
      case invoke (GetDomain zid) (get_domain api ctx zid) w of
        (Inl e, w1) \<Rightarrow> (Inl e, w1)
      | (Inr _, w1) \<Rightarrow>
          (case get_paging_params cfg ps SORT_KEYS of
             Inl e \<Rightarrow> (Inl (Propagated e), w1)
           | Inr (marker, limit, sort_key', sort_dir) \<Rightarrow>
               (case apply_filter_params ps [''name'', ''type'', ''ttl'', ''data''] [] of
                  Inl e \<Rightarrow> (Inl (Propagated e), w1)
                | Inr criterion0 \<Rightarrow>
                    (let criterion1 = AList.update ''domain_id'' zid criterion0;
                         data = map_of criterion1 ''data'';
                         criterion = AList.delete ''data'' criterion1
                     in case invoke (FindRecordsets criterion marker limit sort_key' sort_dir)
                               (find_recordsets api ctx criterion marker limit sort_key' sort_dir) w1 of
                          (Inl e, w2) \<Rightarrow> (Inl e, w2)
                        | (Inr recordsets, w2) \<Rightarrow>
                            if truthy data then
                              (let c = [(''data'', the data), (''domain_id'', zid)] in
                               case invoke (FindRecords c) (find_records api ctx c) w2 of
                                 (Inl e, w3) \<Rightarrow> (Inl e, w3)
                               | (Inr records, w3) \<Rightarrow>
                                   (let recordsets_with_data = set (map rec_recordset_id records);
                                        new_rsets = filter (\<lambda>recordset.
                                          rs_id recordset \<in> recordsets_with_data) recordsets
                                    in (Inr (render_list ad req new_rsets), w3)))
                            else (Inr (render_list ad req recordsets), w2)))))"

text \<open>
  \<^verbatim>\<open>post_all\<close>: parse the body into a fresh \<^verbatim>\<open>RecordSet()\<close>, validate it, refuse the
  type SOA, create the recordset, then set the status code and the \<^verbatim>\<open>Location\<close> header.
\<close>

definition post_all ::
  "'s central_api \<Rightarrow> adapter \<Rightarrow> request \<Rightarrow> response \<Rightarrow> string \<Rightarrow> 's world
     \<Rightarrow> (failure + rendered \<times> response) \<times> 's world" where
  "post_all api ad req resp zid w =
     (let ctx = req_context req; body = body_dict req in
      case parse ad body RecordSet of
        Inl e \<Rightarrow> (Inl (Propagated e), w)
      | Inr recordset \<Rightarrow>
          (case validate ad recordset of
             Some e \<Rightarrow> (Inl (Propagated e), w)
           | None \<Rightarrow>
               if rs_type recordset = Some ''SOA''
               then (Inl (Raised (BadRequest ''Creating a SOA recordset is not allowed'')), w)
               else
                 (case invoke (CreateRecordset zid recordset)
                         (create_recordset api ctx zid recordset) w of
                    (Inl e, w1) \<Rightarrow> (Inl e, w1)
                  | (Inr created, w1) \<Rightarrow>
                      (let resp1 = (if rs_status created = Some ''PENDING''
                                    then resp\<lparr>status_int := 202\<rparr>
                                    else resp\<lparr>status_int := 201\<rparr>);
                           out = render ad req created;
                           resp2 = resp1\<lparr>resp_headers :=
                             AList.update ''Location'' (links_self out) (resp_headers resp1)\<rparr>
                       in (Inr (out, resp2), w1)))))"

text \<open>
  \<^verbatim>\<open>put_one\<close>: fetch the recordset, run the three guards (managed, SOA, NS at the zone
  root, the last one with a zone lookup), overlay the body, validate, update, then set the
  status code.
\<close>

definition put_one ::
  "'s central_api \<Rightarrow> adapter \<Rightarrow> request \<Rightarrow> response \<Rightarrow> string \<Rightarrow> string \<Rightarrow> 's world
     \<Rightarrow> (failure + rendered \<times> response) \<times> 's world" where
  "put_one api ad req resp zid rid w =
     (let ctx = req_context req; body = body_dict req in
      case invoke (GetRecordset zid rid) (get_recordset api ctx zid rid) w of
        (Inl e, w1) \<Rightarrow> (Inl e, w1)
      | (Inr recordset, w1) \<Rightarrow>
          if rs_managed recordset \<and> \<not> edit_managed_records ctx
          then (Inl (Raised (BadRequest ''Managed records may not be updated'')), w1)
          else if rs_type recordset = Some ''SOA''
          then (Inl (Raised (BadRequest ''Updating SOA recordsets is not allowed'')), w1)
          else
            (case (if rs_type recordset = Some ''NS''
                   then (case invoke (GetDomain zid) (get_domain api ctx zid) w1 of
                           (Inl e, w2) \<Rightarrow> (Some e, w2)
                         | (Inr zone, w2) \<Rightarrow>
                             if rs_name recordset = Some (zone_name zone)
                             then (Some (Raised (BadRequest
                                     ''Updating a root zone NS record is not allowed'')), w2)
                             else (None, w2))
                   else (None, w1)) of
               (Some e, w2) \<Rightarrow> (Inl e, w2)
             | (None, w2) \<Rightarrow>
                 (case parse ad body recordset of
                    Inl e \<Rightarrow> (Inl (Propagated e), w2)
                  | Inr parsed \<Rightarrow>
                      (case validate ad parsed of
                         Some e \<Rightarrow> (Inl (Propagated e), w2)
                       | None \<Rightarrow>
                           (case invoke (UpdateRecordset parsed)
                                   (update_recordset api ctx parsed) w2 of
                              (Inl e, w3) \<Rightarrow> (Inl e, w3)
                            | (Inr updated, w3) \<Rightarrow>
                                (let resp1 = (if rs_status updated = Some ''PENDING''
                                              then resp\<lparr>status_int := 202\<rparr>
                                              else resp\<lparr>status_int := 200\<rparr>)
                                 in (Inr (render ad req updated, resp1), w3)))))))"

text \<open>
  \<^verbatim>\<open>delete_one\<close>: fetch the recordset, refuse the type SOA, delete, answer 202.
\<close>

definition delete_one ::
  "'s central_api \<Rightarrow> adapter \<Rightarrow> request \<Rightarrow> response \<Rightarrow> string \<Rightarrow> string \<Rightarrow> 's world
     \<Rightarrow> (failure + rendered \<times> response) \<times> 's world" where
  "delete_one api ad req resp zid rid w =
     (let ctx = req_context req in
      case invoke (GetRecordset zid rid) (get_recordset api ctx zid rid) w of
        (Inl e, w1) \<Rightarrow> (Inl e, w1)
      | (Inr recordset, w1) \<Rightarrow>
          if rs_type recordset = Some ''SOA''
          then (Inl (Raised (BadRequest ''Deleting a SOA recordset is not allowed'')), w1)
          else
            (case invoke (DeleteRecordset zid rid) (delete_recordset api ctx zid rid) w1 of
               (Inl e, w2) \<Rightarrow> (Inl e, w2)
             | (Inr deleted, w2) \<Rightarrow>
                 (Inr (render ad req deleted, resp\<lparr>status_int := 202\<rparr>), w2)))"

section \<open>An in-memory central service\<close>

text \<open>
  A small central service and adapter on which the handlers can be run: zones, recordsets
  and records are kept in lists, queries compare fields for equality, and every accepted
  change is reported as \<^verbatim>\<open>PENDING\<close>. It is one possible collaborator among all those the
  theorems below quantify over.
\<close>

record store =
  st_zones :: "zone list"
  st_recordsets :: "recordset list"
  st_records :: "dns_record list"

definition rs_matches :: "criterion \<Rightarrow> recordset \<Rightarrow> bool" where
  "rs_matches crit r =
     list_all (\<lambda>(k, v).
        if k = ''domain_id'' then rs_domain_id r = Some v
        else if k = ''name'' then rs_name r = Some v
        else if k = ''type'' then rs_type r = Some v
        else if k = ''ttl'' then
          (case int_of_string v of None \<Rightarrow> False | Some n \<Rightarrow> rs_ttl r = Some (int n))
        else False) crit"

definition rec_matches :: "criterion \<Rightarrow> dns_record \<Rightarrow> bool" where
  "rec_matches crit r =
     list_all (\<lambda>(k, v).
        if k = ''domain_id'' then rec_domain_id r = Some v
        else if k = ''data'' then rec_data r = v
        else False) crit"

definition mem_get_domain :: "caller_context \<Rightarrow> string \<Rightarrow> store \<Rightarrow> (error + zone) \<times> store" where
  "mem_get_domain ctx zid s =
     (case find (\<lambda>z. zone_id z = zid) (st_zones s) of
        None \<Rightarrow> (Inl (NotFound ''Could not find Domain''), s)
      | Some z \<Rightarrow> (Inr z, s))"

definition mem_get_recordset ::
  "caller_context \<Rightarrow> string \<Rightarrow> string \<Rightarrow> store \<Rightarrow> (error + recordset) \<times> store" where
  "mem_get_recordset ctx zid rid s =
     (case find (\<lambda>r. rs_id r = Some rid \<and> rs_domain_id r = Some zid) (st_recordsets s) of
        None \<Rightarrow> (Inl (NotFound ''Could not find RecordSet''), s)
      | Some r \<Rightarrow> (Inr r, s))"

definition mem_find_recordsets ::
  "caller_context \<Rightarrow> criterion \<Rightarrow> string option \<Rightarrow> nat \<Rightarrow> string option \<Rightarrow> string \<Rightarrow> store
     \<Rightarrow> (error + recordset list) \<times> store" where
  "mem_find_recordsets ctx crit marker limit skey sdir s =
     (Inr (take limit (filter (rs_matches crit) (st_recordsets s))), s)"

definition mem_find_records ::
  "caller_context \<Rightarrow> criterion \<Rightarrow> store \<Rightarrow> (error + dns_record list) \<times> store" where
  "mem_find_records ctx crit s = (Inr (filter (rec_matches crit) (st_records s)), s)"

definition mem_create_recordset ::
  "caller_context \<Rightarrow> string \<Rightarrow> recordset \<Rightarrow> store \<Rightarrow> (error + recordset) \<times> store" where
  "mem_create_recordset ctx zid r s =
     (let created = r\<lparr>rs_id := Some ''rs-new'', rs_domain_id := Some zid,
                       rs_status := Some ''PENDING''\<rparr>
      in (Inr created, s\<lparr>st_recordsets := st_recordsets s @ [created]\<rparr>))"

definition mem_update_recordset ::
  "caller_context \<Rightarrow> recordset \<Rightarrow> store \<Rightarrow> (error + recordset) \<times> store" where
  "mem_update_recordset ctx r s =
     (let updated = r\<lparr>rs_status := Some ''PENDING''\<rparr>
      in (Inr updated,
          s\<lparr>st_recordsets :=
              map (\<lambda>x. if rs_id x = rs_id r then updated else x) (st_recordsets s)\<rparr>))"

definition mem_delete_recordset ::
  "caller_context \<Rightarrow> string \<Rightarrow> string \<Rightarrow> store \<Rightarrow> (error + recordset) \<times> store" where
  "mem_delete_recordset ctx zid rid s =
     (case find (\<lambda>r. rs_id r = Some rid \<and> rs_domain_id r = Some zid) (st_recordsets s) of
        None \<Rightarrow> (Inl (NotFound ''Could not find RecordSet''), s)
      | Some r \<Rightarrow>
          (Inr (r\<lparr>rs_status := Some ''PENDING''\<rparr>),
           s\<lparr>st_recordsets := filter (\<lambda>x. rs_id x \<noteq> Some rid) (st_recordsets s)\<rparr>))"

definition mem_api :: "store central_api" where
  "mem_api = \<lparr>get_domain = mem_get_domain, get_recordset = mem_get_recordset,
     find_recordsets = mem_find_recordsets, find_records = mem_find_records,
     create_recordset = mem_create_recordset, update_recordset = mem_update_recordset,
     delete_recordset = mem_delete_recordset\<rparr>"

definition mem_parse :: "body \<Rightarrow> recordset \<Rightarrow> error + recordset" where
  "mem_parse b r =
     (let r1 = (case map_of b ''name'' of Some (JString n) \<Rightarrow> r\<lparr>rs_name := Some n\<rparr> | _ \<Rightarrow> r);
          r2 = (case map_of b ''type'' of Some (JString t) \<Rightarrow> r1\<lparr>rs_type := Some t\<rparr> | _ \<Rightarrow> r1);
          r3 = (case map_of b ''ttl'' of Some (JInt n) \<Rightarrow> r2\<lparr>rs_ttl := Some n\<rparr> | _ \<Rightarrow> r2);
          r4 = (case map_of b ''records'' of Some (JList xs) \<Rightarrow> r3\<lparr>rs_records := xs\<rparr> | _ \<Rightarrow> r3)
      in Inr r4)"

definition mem_validate :: "recordset \<Rightarrow> error option" where
  "mem_validate r =
     (if rs_name r = None \<or> rs_type r = None
      then Some (ValidationError ''Provided object does not match schema'')
      else None)"

definition mem_render :: "request \<Rightarrow> recordset \<Rightarrow> rendered" where
  "mem_render req r =
     \<lparr>rendered_fields =
        [(''name'', JString (case rs_name r of None \<Rightarrow> [] | Some n \<Rightarrow> n)),
         (''type'', JString (case rs_type r of None \<Rightarrow> [] | Some t \<Rightarrow> t)),
         (''records'', JList (rs_records r))],
      links_self = host_url req @ ''/zones/''
        @ (case rs_domain_id r of None \<Rightarrow> [] | Some z \<Rightarrow> z) @ ''/recordsets/''
        @ (case rs_id r of None \<Rightarrow> [] | Some i \<Rightarrow> i)\<rparr>"

definition mem_adapter :: adapter where
  "mem_adapter = \<lparr>parse = mem_parse, validate = mem_validate, render = mem_render,
     render_list = (\<lambda>req. map (mem_render req))\<rparr>"

text \<open>
  One zone \<^verbatim>\<open>example.com.\<close> with its managed SOA recordset, its root NS recordset,
  two A recordsets and one managed A recordset.
\<close>

definition mk_rs :: "string \<Rightarrow> string \<Rightarrow> string \<Rightarrow> string list \<Rightarrow> bool \<Rightarrow> recordset" where
  "mk_rs i n t rs m = \<lparr>rs_id = Some i, rs_domain_id = Some ''z1'', rs_name = Some n,
     rs_type = Some t, rs_ttl = Some 300, rs_records = rs, rs_managed = m,
     rs_status = Some ''ACTIVE''\<rparr>"

definition rs_soa :: recordset where
  "rs_soa = mk_rs ''r-soa'' ''example.com.'' ''SOA''
     [''ns1.example.com. admin.example.com. 1 3600 600 86400 3600''] True"

definition rs_ns :: recordset where
  "rs_ns = mk_rs ''r-ns'' ''example.com.'' ''NS'' [''ns1.example.com.''] False"

definition rs_www :: recordset where
  "rs_www = mk_rs ''r-www'' ''www.example.com.'' ''A'' [''1.2.3.4''] False"

definition rs_mail :: recordset where
  "rs_mail = mk_rs ''r-mail'' ''mail.example.com.'' ''A'' [''5.6.7.8''] False"

definition rs_sys :: recordset where
  "rs_sys = mk_rs ''r-sys'' ''sys.example.com.'' ''A'' [''9.9.9.9''] True"

definition store0 :: store where
  "store0 = \<lparr>st_zones = [\<lparr>zone_id = ''z1'', zone_name = ''example.com.''\<rparr>],
     st_recordsets = [rs_soa, rs_ns, rs_www, rs_mail, rs_sys],
     st_records =
       [\<lparr>rec_recordset_id = Some ''r-www'', rec_domain_id = Some ''z1'', rec_data = ''1.2.3.4''\<rparr>,
        \<lparr>rec_recordset_id = Some ''r-mail'', rec_domain_id = Some ''z1'', rec_data = ''5.6.7.8''\<rparr>,
        \<lparr>rec_recordset_id = Some ''r-ns'', rec_domain_id = Some ''z1'',
          rec_data = ''ns1.example.com.''\<rparr>]\<rparr>"

definition cfg0 :: api_config where
  "cfg0 = \<lparr>max_limit = 1000, default_limit = 20\<rparr>"

definition user_ctx :: caller_context where
  "user_ctx = \<lparr>ctx_tenant = ''t1'', edit_managed_records = False\<rparr>"

definition admin_ctx :: caller_context where
  "admin_ctx = \<lparr>ctx_tenant = ''t1'', edit_managed_records = True\<rparr>"

definition mk_req :: "caller_context \<Rightarrow> body \<Rightarrow> request" where
  "mk_req ctx b = \<lparr>req_context = ctx, body_dict = b, host_url = ''http://dns''\<rparr>"

definition resp0 :: response where
  "resp0 = \<lparr>status_int = 200, resp_headers = []\<rparr>"

section \<open>Properties of the handlers\<close>

text \<open>
  In every statement below a handler starts from a state \<open>s\<close> of the central service and
  an empty list of calls, so \<open>calls_of\<close> is exactly what the handler asked of the service.
\<close>

subsection \<open>Calls to the central service\<close>

lemma invoke_Inl:
  "f (fst w) = (Inl e, s') \<Longrightarrow> invoke c f w = (Inl (Propagated e), (s', snd w @ [c]))"
  by (simp add: invoke_def)

lemma invoke_Inr:
  "f (fst w) = (Inr x, s') \<Longrightarrow> invoke c f w = (Inr x, (s', snd w @ [c]))"
  by (simp add: invoke_def)

subsection \<open>Listing\<close>

lemma get_paging_params_sort_key:
  assumes "map_of ps ''sort_key'' = Some k" and "k \<notin> set sort_keys"
  shows "\<exists>m. get_paging_params cfg ps sort_keys = Inl (ValidationError m)"
  using assms by (simp add: get_paging_params_def Let_def split: option.splits)

lemma get_all_zone_missing:
  assumes "get_domain api (req_context req) zid s = (Inl e, s1)"
  shows "get_all cfg api ad req zid ps (s, []) = (Inl (Propagated e), (s1, [GetDomain zid]))"
  using assms by (simp add: get_all_def Let_def invoke_def)

lemma get_all_first_call:
  "\<exists>rest. calls_of (get_all cfg api ad req zid ps (s, [])) = GetDomain zid # rest"
  by (auto simp add: get_all_def Let_def invoke_def calls_of_def split: prod.splits sum.splits)

text \<open>
  Claim C8. In every list call the zone lookup comes before any recordset query: when the
  lookup raises (the zone is missing), the list call ends with that exception, having made
  no other call, so it never answers an empty list; and in every run the first call to the
  central service is the zone lookup.
\<close>

theorem get_all_zone_check_first:
  "(\<forall>e s1. get_domain api (req_context req) zid s = (Inl e, s1) \<longrightarrow>
      get_all cfg api ad req zid ps (s, []) = (Inl (Propagated e), (s1, [GetDomain zid])))
   \<and> (\<exists>rest. calls_of (get_all cfg api ad req zid ps (s, [])) = GetDomain zid # rest)"
proof (intro conjI allI impI)
  fix e s1
  assume "get_domain api (req_context req) zid s = (Inl e, s1)"
  then show "get_all cfg api ad req zid ps (s, []) = (Inl (Propagated e), (s1, [GetDomain zid]))"
    by (rule get_all_zone_missing)
next
  show "\<exists>rest. calls_of (get_all cfg api ad req zid ps (s, [])) = GetDomain zid # rest"
    by (rule get_all_first_call)
qed

theorem get_all_zone_check_first_witness:
  "get_all cfg0 mem_api mem_adapter (mk_req user_ctx []) ''z9'' [] (store0, [])
     = (Inl (Propagated (NotFound ''Could not find Domain'')), (store0, [GetDomain ''z9'']))"
proof -
  have "get_domain mem_api (req_context (mk_req user_ctx [])) ''z9'' store0
          = (Inl (NotFound ''Could not find Domain''), store0)"
    by code_simp
  with get_all_zone_check_first [of mem_api "mk_req user_ctx []" "''z9''" store0 cfg0 mem_adapter "[]"]
  show ?thesis by blast
qed

text \<open>
  Claim C1, as the specification states it: a list call with a sort key outside the allowed
  set fails validation without any call to the central service. The handler looks the zone
  up before it reads the paging parameters, so one call is made: on the in-memory service,
  with the sort key \<^verbatim>\<open>bogus\<close>, the calls are the zone lookup.
\<close>

theorem get_all_bad_sort_key_counterexample:
  "''bogus'' \<notin> set SORT_KEYS
   \<and> calls_of (get_all cfg0 mem_api mem_adapter (mk_req user_ctx []) ''z1''
        [(''sort_key'', ''bogus'')] (store0, [])) = [GetDomain ''z1'']"
  by code_simp

text \<open>
  Claim C1, amended. For every list call whose \<^verbatim>\<open>sort_key\<close> parameter is outside the
  allowed set, the list call ends with an exception and its only call to the central
  service is the zone lookup: no recordset query and no record query is made. When the
  zone lookup succeeds the exception is a validation error; when it raises, the exception
  is the one of the zone lookup.
\<close>

theorem get_all_bad_sort_key:
  assumes "map_of ps ''sort_key'' = Some k" and "k \<notin> set SORT_KEYS"
  shows "\<exists>e. fst (get_all cfg api ad req zid ps (s, [])) = Inl (Propagated e)
           \<and> calls_of (get_all cfg api ad req zid ps (s, [])) = [GetDomain zid]
           \<and> (case fst (get_domain api (req_context req) zid s) of
                 Inl e' \<Rightarrow> e = e'
               | Inr z \<Rightarrow> (\<exists>m. e = ValidationError m))"
proof -
  obtain m where m: "get_paging_params cfg ps SORT_KEYS = Inl (ValidationError m)"
    using get_paging_params_sort_key [OF assms] by blast
  show ?thesis
  proof (cases "get_domain api (req_context req) zid s")
    case (Pair r s1)
    then show ?thesis
      by (cases r) (simp_all add: get_all_def Let_def invoke_def calls_of_def m)
  qed
qed

theorem get_all_bad_sort_key_witness:
  "\<exists>e. fst (get_all cfg0 mem_api mem_adapter (mk_req user_ctx []) ''z1''
             [(''sort_key'', ''bogus'')] (store0, [])) = Inl (Propagated e)
       \<and> calls_of (get_all cfg0 mem_api mem_adapter (mk_req user_ctx []) ''z1''
             [(''sort_key'', ''bogus'')] (store0, [])) = [GetDomain ''z1'']
       \<and> (\<exists>m. e = ValidationError m)"
proof -
  have k: "map_of [(''sort_key'', ''bogus'')] ''sort_key'' = Some ''bogus''" by simp
  have n: "''bogus'' \<notin> set SORT_KEYS" by (simp add: SORT_KEYS_def)
  have z: "fst (get_domain mem_api (req_context (mk_req user_ctx [])) ''z1'' store0)
             = Inr \<lparr>zone_id = ''z1'', zone_name = ''example.com.''\<rparr>"
    by code_simp
  from get_all_bad_sort_key [OF k n, of cfg0 mem_api mem_adapter "mk_req user_ctx []" "''z1''" store0]
  show ?thesis by (simp add: z)
qed

lemma get_all_run:
  assumes zone: "get_domain api (req_context req) zid s = (Inr z, s1)"
    and paging: "get_paging_params cfg ps SORT_KEYS = Inr (marker, limit, skey, sdir)"
    and filters: "apply_filter_params ps [''name'', ''type'', ''ttl'', ''data''] [] = Inr crit"
    and rsets: "find_recordsets api (req_context req)
                  (AList.delete ''data'' (AList.update ''domain_id'' zid crit))
                  marker limit skey sdir s1 = (Inr recordsets, s2)"
  shows "get_all cfg api ad req zid ps (s, []) =
     (let c = [(''data'', the (map_of crit ''data'')), (''domain_id'', zid)];
          q = FindRecordsets (AList.delete ''data'' (AList.update ''domain_id'' zid crit))
                marker limit skey sdir
      in if truthy (map_of crit ''data'') then
           (case find_records api (req_context req) c s2 of
              (Inl e, s3) \<Rightarrow> (Inl (Propagated e), (s3, [GetDomain zid, q, FindRecords c]))
            | (Inr records, s3) \<Rightarrow>
                (Inr (render_list ad req
                   (filter (\<lambda>r. rs_id r \<in> set (map rec_recordset_id records)) recordsets)),
                 (s3, [GetDomain zid, q, FindRecords c])))
         else (Inr (render_list ad req recordsets), (s2, [GetDomain zid, q])))"
  using assms
  by (simp add: get_all_def Let_def invoke_def update_conv' split: prod.splits sum.splits)

text \<open>
  Claim C2, as the specification states it, for every criterion that contains a data
  filter. With \<^verbatim>\<open>data\<close> present and empty, no record of the in-memory service matches
  the filter, and yet the list call returns all five recordsets of the zone, not the empty
  list.
\<close>

theorem get_all_data_filter_counterexample:
  "map_of [(''data'', '''')] ''data'' = Some (''''::string)
   \<and> fst (find_records mem_api user_ctx [(''data'', ''''), (''domain_id'', ''z1'')] store0) = Inr []
   \<and> fst (get_all cfg0 mem_api mem_adapter (mk_req user_ctx []) ''z1'' [(''data'', '''')] (store0, []))
       = Inr (map (render mem_adapter (mk_req user_ctx [])) [rs_soa, rs_ns, rs_www, rs_mail, rs_sys])
   \<and> fst (get_all cfg0 mem_api mem_adapter (mk_req user_ctx []) ''z1'' [(''data'', '''')] (store0, []))
       \<noteq> Inr (render_list mem_adapter (mk_req user_ctx []) [])"
  by code_simp

text \<open>
  Claim C2, amended. For every list call whose filter criterion contains a non-empty
  \<^verbatim>\<open>data\<close> filter, the returned list is the list of the recordset query (made with the
  remaining criterion and the zone's id, in its order and within its page) restricted to the
  recordsets whose id is the \<^verbatim>\<open>recordset_id\<close> of at least one record matching the data
  filter in the zone; when no record matches, the list is empty.
\<close>

theorem get_all_data_filter:
  assumes zone: "get_domain api (req_context req) zid s = (Inr z, s1)"
    and paging: "get_paging_params cfg ps SORT_KEYS = Inr (marker, limit, skey, sdir)"
    and filters: "apply_filter_params ps [''name'', ''type'', ''ttl'', ''data''] [] = Inr crit"
    and data: "map_of crit ''data'' = Some d" "d \<noteq> []"
    and rsets: "find_recordsets api (req_context req)
                  (AList.delete ''data'' (AList.update ''domain_id'' zid crit))
                  marker limit skey sdir s1 = (Inr recordsets, s2)"
    and recs: "find_records api (req_context req) [(''data'', d), (''domain_id'', zid)] s2
                 = (Inr records, s3)"
  shows "fst (get_all cfg api ad req zid ps (s, [])) =
           Inr (render_list ad req
             (filter (\<lambda>r. \<exists>x \<in> set records. rec_recordset_id x = rs_id r) recordsets))
         \<and> (records = [] \<longrightarrow> fst (get_all cfg api ad req zid ps (s, [])) = Inr (render_list ad req []))"
proof -
  have same: "(\<lambda>r::recordset. rs_id r \<in> rec_recordset_id ` set records)
                = (\<lambda>r. \<exists>x \<in> set records. rec_recordset_id x = rs_id r)"
    by (rule ext) (metis (no_types, lifting) image_iff)
  have run: "fst (get_all cfg api ad req zid ps (s, [])) =
           Inr (render_list ad req
             (filter (\<lambda>r. \<exists>x \<in> set records. rec_recordset_id x = rs_id r) recordsets))"
    using data recs by (simp add: get_all_run [OF zone paging filters rsets] same)
  then show ?thesis by auto
qed

theorem get_all_data_filter_witness:
  "fst (get_all cfg0 mem_api mem_adapter (mk_req user_ctx []) ''z1''
          [(''type'', ''A''), (''data'', ''1.2.3.4'')] (store0, []))
     = Inr (render_list mem_adapter (mk_req user_ctx []) [rs_www])"
proof -
  let ?req = "mk_req user_ctx []"
  let ?ps = "[(''type'', ''A''), (''data'', ''1.2.3.4'')]"
  let ?crit = "[(''type'', ''A''), (''data'', ''1.2.3.4'')]"
  let ?rec = "\<lparr>rec_recordset_id = Some ''r-www'', rec_domain_id = Some ''z1'', rec_data = ''1.2.3.4''\<rparr>"
  have zone: "get_domain mem_api (req_context ?req) ''z1'' store0
                = (Inr \<lparr>zone_id = ''z1'', zone_name = ''example.com.''\<rparr>, store0)"
    by code_simp
  have paging: "get_paging_params cfg0 ?ps SORT_KEYS = Inr (None, 20, None, ''asc'')"
    by code_simp
  have filters: "apply_filter_params ?ps [''name'', ''type'', ''ttl'', ''data''] [] = Inr ?crit"
    by code_simp
  have data: "map_of ?crit ''data'' = Some ''1.2.3.4''" "''1.2.3.4'' \<noteq> []"
    by simp_all
  have rsets: "find_recordsets mem_api (req_context ?req)
                 (AList.delete ''data'' (AList.update ''domain_id'' ''z1'' ?crit))
                 None 20 None ''asc'' store0 = (Inr [rs_www, rs_mail, rs_sys], store0)"
    by code_simp
  have recs: "find_records mem_api (req_context ?req)
                [(''data'', ''1.2.3.4''), (''domain_id'', ''z1'')] store0 = (Inr [?rec], store0)"
    by code_simp
  have join: "filter (\<lambda>r. \<exists>x \<in> set [?rec]. rec_recordset_id x = rs_id r) [rs_www, rs_mail, rs_sys]
                = [rs_www]"
    by code_simp
  from get_all_data_filter [OF zone paging filters data rsets recs, of mem_adapter]
  show ?thesis unfolding join by (rule conjunct1)
qed

text \<open>
  Claim C9. For every list call whose \<^verbatim>\<open>data\<close> filter is present with the empty string
  as its value, the join is skipped: the calls are the zone lookup and the recordset query,
  no record query is made, and the result is the whole list of the recordset query.
\<close>

theorem get_all_empty_data:
  assumes zone: "get_domain api (req_context req) zid s = (Inr z, s1)"
    and paging: "get_paging_params cfg ps SORT_KEYS = Inr (marker, limit, skey, sdir)"
    and filters: "apply_filter_params ps [''name'', ''type'', ''ttl'', ''data''] [] = Inr crit"
    and data: "map_of crit ''data'' = Some []"
    and rsets: "find_recordsets api (req_context req)
                  (AList.delete ''data'' (AList.update ''domain_id'' zid crit))
                  marker limit skey sdir s1 = (Inr recordsets, s2)"
  shows "get_all cfg api ad req zid ps (s, []) =
           (Inr (render_list ad req recordsets),
            (s2, [GetDomain zid,
                  FindRecordsets (AList.delete ''data'' (AList.update ''domain_id'' zid crit))
                    marker limit skey sdir]))"
  using data by (simp add: get_all_run [OF zone paging filters rsets])

theorem get_all_empty_data_witness:
  "get_all cfg0 mem_api mem_adapter (mk_req user_ctx []) ''z1''
      [(''type'', ''A''), (''data'', [])] (store0, [])
     = (Inr (render_list mem_adapter (mk_req user_ctx []) [rs_www, rs_mail, rs_sys]),
        (store0, [GetDomain ''z1'',
                  FindRecordsets [(''type'', ''A''), (''domain_id'', ''z1'')] None 20 None ''asc'']))"
proof -
  let ?req = "mk_req user_ctx []"
  let ?ps = "[(''type'', ''A''), (''data'', [])]"
  have zone: "get_domain mem_api (req_context ?req) ''z1'' store0
                = (Inr \<lparr>zone_id = ''z1'', zone_name = ''example.com.''\<rparr>, store0)"
    by code_simp
  have paging: "get_paging_params cfg0 ?ps SORT_KEYS = Inr (None, 20, None, ''asc'')"
    by code_simp
  have filters: "apply_filter_params ?ps [''name'', ''type'', ''ttl'', ''data''] [] = Inr ?ps"
    by code_simp
  have data: "map_of ?ps ''data'' = Some []"
    by simp
  have rsets: "find_recordsets mem_api (req_context ?req)
                 (AList.delete ''data'' (AList.update ''domain_id'' ''z1'' ?ps))
                 None 20 None ''asc'' store0 = (Inr [rs_www, rs_mail, rs_sys], store0)"
    by code_simp
  have crit: "AList.delete ''data'' (AList.update ''domain_id'' ''z1'' ?ps)
                = [(''type'', ''A''), (''domain_id'', ''z1'')]"
    by code_simp
  from get_all_empty_data [OF zone paging filters data rsets, of mem_adapter]
  show ?thesis unfolding crit .
qed

subsection \<open>Creating\<close>

text \<open>
  Claim C4. For every create call whose body parses and validates to a recordset of type
  SOA, the handler raises \<^verbatim>\<open>BadRequest\<close> and makes no call to the central service: the
  state of the service and the list of calls are as they were.
\<close>

theorem post_all_soa_rejected:
  assumes "parse ad (body_dict req) RecordSet = Inr recordset"
    and "validate ad recordset = None"
    and "rs_type recordset = Some ''SOA''"
  shows "post_all api ad req resp zid (s, []) =
           (Inl (Raised (BadRequest ''Creating a SOA recordset is not allowed'')), (s, []))"
  using assms by (simp add: post_all_def Let_def)

theorem post_all_soa_rejected_witness:
  "post_all mem_api mem_adapter
      (mk_req user_ctx [(''name'', JString ''example.com.''), (''type'', JString ''SOA'')])
      resp0 ''z1'' (store0, [])
     = (Inl (Raised (BadRequest ''Creating a SOA recordset is not allowed'')), (store0, []))"
proof -
  let ?req = "mk_req user_ctx [(''name'', JString ''example.com.''), (''type'', JString ''SOA'')]"
  let ?rs = "RecordSet\<lparr>rs_name := Some ''example.com.'', rs_type := Some ''SOA''\<rparr>"
  have p: "parse mem_adapter (body_dict ?req) RecordSet = Inr ?rs"
    by code_simp
  have v: "validate mem_adapter ?rs = None"
    by code_simp
  have t: "rs_type ?rs = Some ''SOA''"
    by simp
  from post_all_soa_rejected [OF p v t] show ?thesis .
qed

text \<open>
  Claim C7. Every create call that succeeds has created a recordset through the central
  service; the status code is 202 when the recordset the service returned has the status
  \<^verbatim>\<open>PENDING\<close> and 201 otherwise, and in both cases the \<^verbatim>\<open>Location\<close> header is the self
  link of the rendered recordset that is returned.
\<close>

theorem post_all_status_and_location:
  assumes "post_all api ad req resp zid (s, []) = (Inr (out, resp'), (s', cs))"
  shows "\<exists>recordset created.
           create_recordset api (req_context req) zid recordset s = (Inr created, s')
           \<and> cs = [CreateRecordset zid recordset]
           \<and> out = render ad req created
           \<and> status_int resp' = (if rs_status created = Some ''PENDING'' then 202 else 201)
           \<and> map_of (resp_headers resp') ''Location'' = Some (links_self out)"
proof -
  from assms obtain recordset created where
    made: "create_recordset api (req_context req) zid recordset s = (Inr created, s')"
    and calls: "cs = [CreateRecordset zid recordset]"
    and body: "out = render ad req created"
    and resp: "resp' = resp\<lparr>status_int := (if rs_status created = Some ''PENDING'' then 202 else 201),
                            resp_headers := AList.update ''Location'' (links_self out)
                              (resp_headers resp)\<rparr>"
    by (auto simp add: post_all_def Let_def invoke_def
             split: sum.splits option.splits if_splits prod.splits)
  have "status_int resp' = (if rs_status created = Some ''PENDING'' then 202 else 201)"
    by (simp add: resp)
  moreover have "map_of (resp_headers resp') ''Location'' = Some (links_self out)"
    by (simp add: resp update_conv')
  ultimately show ?thesis
    using made calls body by blast
qed

theorem post_all_status_and_location_witness:
  "\<exists>out resp' s' cs.
      post_all mem_api mem_adapter
        (mk_req user_ctx [(''name'', JString ''a.example.com.''), (''type'', JString ''A''),
           (''ttl'', JInt 300), (''records'', JList [''1.2.3.4''])])
        resp0 ''z1'' (store0, []) = (Inr (out, resp'), (s', cs))
      \<and> status_int resp' = 202
      \<and> map_of (resp_headers resp') ''Location'' = Some (links_self out)
      \<and> links_self out = ''http://dns/zones/z1/recordsets/rs-new''"
proof -
  let ?req = "mk_req user_ctx [(''name'', JString ''a.example.com.''), (''type'', JString ''A''),
                (''ttl'', JInt 300), (''records'', JList [''1.2.3.4''])]"
  let ?created = "\<lparr>rs_id = Some ''rs-new'', rs_domain_id = Some ''z1'',
     rs_name = Some ''a.example.com.'', rs_type = Some ''A'', rs_ttl = Some 300,
     rs_records = [''1.2.3.4''], rs_managed = False, rs_status = Some ''PENDING''\<rparr>"
  let ?out = "render mem_adapter ?req ?created"
  let ?resp = "\<lparr>status_int = 202,
     resp_headers = [(''Location'', ''http://dns/zones/z1/recordsets/rs-new'')]\<rparr>"
  let ?s = "store0\<lparr>st_recordsets := st_recordsets store0 @ [?created]\<rparr>"
  let ?cs = "[CreateRecordset ''z1'' (RecordSet\<lparr>rs_name := Some ''a.example.com.'',
     rs_type := Some ''A'', rs_ttl := Some 300, rs_records := [''1.2.3.4'']\<rparr>)]"
  have run: "post_all mem_api mem_adapter ?req resp0 ''z1'' (store0, [])
               = (Inr (?out, ?resp), (?s, ?cs))"
    by code_simp
  have link: "links_self ?out = ''http://dns/zones/z1/recordsets/rs-new''"
    by code_simp
  from post_all_status_and_location [OF run]
  have "map_of (resp_headers ?resp) ''Location'' = Some (links_self ?out)"
    by blast
  with run link show ?thesis
    by (intro exI [of _ ?out] exI [of _ ?resp] exI [of _ ?s] exI [of _ ?cs]) simp
qed

subsection \<open>Deleting\<close>

text \<open>
  Claim C6. For every delete call where the recordset fetched from the central service has
  type SOA, the handler raises \<^verbatim>\<open>BadRequest\<close>; the fetch is its only call, so the delete
  call is never made.
\<close>

theorem delete_one_soa_rejected:
  assumes "get_recordset api (req_context req) zid rid s = (Inr recordset, s1)"
    and "rs_type recordset = Some ''SOA''"
  shows "delete_one api ad req resp zid rid (s, []) =
           (Inl (Raised (BadRequest ''Deleting a SOA recordset is not allowed'')),
            (s1, [GetRecordset zid rid]))"
  using assms by (simp add: delete_one_def Let_def invoke_def)

theorem delete_one_soa_rejected_witness:
  "delete_one mem_api mem_adapter (mk_req user_ctx []) resp0 ''z1'' ''r-soa'' (store0, []) =
     (Inl (Raised (BadRequest ''Deleting a SOA recordset is not allowed'')),
      (store0, [GetRecordset ''z1'' ''r-soa'']))"
proof -
  have f: "get_recordset mem_api (req_context (mk_req user_ctx [])) ''z1'' ''r-soa'' store0
             = (Inr rs_soa, store0)"
    by code_simp
  have t: "rs_type rs_soa = Some ''SOA''"
    by code_simp
  from delete_one_soa_rejected [OF f t] show ?thesis .
qed

subsection \<open>Updating\<close>

lemma put_one_managed:
  assumes "get_recordset api (req_context req) zid rid s = (Inr recordset, s1)"
    and "rs_managed recordset" and "\<not> edit_managed_records (req_context req)"
  shows "put_one api ad req resp zid rid (s, []) =
           (Inl (Raised (BadRequest ''Managed records may not be updated'')),
            (s1, [GetRecordset zid rid]))"
  using assms by (simp add: put_one_def Let_def invoke_def)

lemma put_one_soa:
  assumes "get_recordset api (req_context req) zid rid s = (Inr recordset, s1)"
    and "\<not> (rs_managed recordset \<and> \<not> edit_managed_records (req_context req))"
    and "rs_type recordset = Some ''SOA''"
  shows "put_one api ad req resp zid rid (s, []) =
           (Inl (Raised (BadRequest ''Updating SOA recordsets is not allowed'')),
            (s1, [GetRecordset zid rid]))"
  using assms by (simp add: put_one_def Let_def invoke_def)

lemma put_one_root_ns:
  assumes "get_recordset api (req_context req) zid rid s = (Inr recordset, s1)"
    and "\<not> (rs_managed recordset \<and> \<not> edit_managed_records (req_context req))"
    and "rs_type recordset = Some ''NS''"
    and "get_domain api (req_context req) zid s1 = (Inr z, s2)"
    and "rs_name recordset = Some (zone_name z)"
  shows "put_one api ad req resp zid rid (s, []) =
           (Inl (Raised (BadRequest ''Updating a root zone NS record is not allowed'')),
            (s2, [GetRecordset zid rid, GetDomain zid]))"
  using assms by (simp add: put_one_def Let_def invoke_def)

lemma put_one_managed_only_if:
  assumes "fst (put_one api ad req resp zid rid (s, []))
             = Inl (Raised (BadRequest ''Managed records may not be updated''))"
  shows "\<not> edit_managed_records (req_context req)"
  using assms
  by (auto simp add: put_one_def Let_def invoke_def
           split: sum.splits option.splits if_splits prod.splits)

lemma put_one_zone_lookup_only_if:
  assumes "GetDomain z' \<in> set (calls_of (put_one api ad req resp zid rid (s, [])))"
  shows "\<exists>recordset s1. get_recordset api (req_context req) zid rid s = (Inr recordset, s1)
           \<and> rs_type recordset = Some ''NS''"
  using assms
  by (auto simp add: put_one_def Let_def invoke_def calls_of_def
           split: sum.splits option.splits if_splits prod.splits)


text \<open>
  Claim C5. For every update call on a recordset that is fetched as managed: with a caller
  context that lacks \<^verbatim>\<open>edit_managed_records\<close> the handler raises \<^verbatim>\<open>BadRequest\<close> with
  the managed-records message right after the fetch; the same request with the capability
  granted does not end at that \<^verbatim>\<open>raise\<close> statement.
\<close>

theorem put_one_managed_guard:
  assumes "get_recordset api (ctx\<lparr>edit_managed_records := False\<rparr>) zid rid s = (Inr recordset, s1)"
    and "rs_managed recordset"
  shows "put_one api ad (req\<lparr>req_context := ctx\<lparr>edit_managed_records := False\<rparr>\<rparr>)
             resp zid rid (s, [])
           = (Inl (Raised (BadRequest ''Managed records may not be updated'')),
              (s1, [GetRecordset zid rid]))
         \<and> fst (put_one api ad (req\<lparr>req_context := ctx\<lparr>edit_managed_records := True\<rparr>\<rparr>)
                 resp zid rid (s, []))
           \<noteq> Inl (Raised (BadRequest ''Managed records may not be updated''))"
proof
  let ?denied = "req\<lparr>req_context := ctx\<lparr>edit_managed_records := False\<rparr>\<rparr>"
  have fetched: "get_recordset api (req_context ?denied) zid rid s = (Inr recordset, s1)"
    using assms(1) by simp
  have lacking: "\<not> edit_managed_records (req_context ?denied)"
    by simp
  show "put_one api ad ?denied resp zid rid (s, [])
           = (Inl (Raised (BadRequest ''Managed records may not be updated'')),
              (s1, [GetRecordset zid rid]))"
    by (rule put_one_managed [OF fetched assms(2) lacking])
next
  show "fst (put_one api ad (req\<lparr>req_context := ctx\<lparr>edit_managed_records := True\<rparr>\<rparr>)
                 resp zid rid (s, []))
           \<noteq> Inl (Raised (BadRequest ''Managed records may not be updated''))"
    using put_one_managed_only_if
      [of api ad "req\<lparr>req_context := ctx\<lparr>edit_managed_records := True\<rparr>\<rparr>" resp zid rid s]
    by auto
qed

theorem put_one_managed_guard_witness:
  "put_one mem_api mem_adapter (mk_req user_ctx [(''ttl'', JInt 60)]) resp0 ''z1'' ''r-sys''
       (store0, [])
     = (Inl (Raised (BadRequest ''Managed records may not be updated'')),
        (store0, [GetRecordset ''z1'' ''r-sys'']))
   \<and> fst (put_one mem_api mem_adapter (mk_req admin_ctx [(''ttl'', JInt 60)]) resp0 ''z1'' ''r-sys''
           (store0, []))
     \<noteq> Inl (Raised (BadRequest ''Managed records may not be updated''))"
proof -
  let ?req = "mk_req user_ctx [(''ttl'', JInt 60)]"
  have f: "get_recordset mem_api (user_ctx\<lparr>edit_managed_records := False\<rparr>) ''z1'' ''r-sys'' store0
             = (Inr rs_sys, store0)"
    by code_simp
  have m: "rs_managed rs_sys"
    by code_simp
  have u: "?req\<lparr>req_context := user_ctx\<lparr>edit_managed_records := False\<rparr>\<rparr> = ?req"
    by code_simp
  have a: "?req\<lparr>req_context := user_ctx\<lparr>edit_managed_records := True\<rparr>\<rparr>
             = mk_req admin_ctx [(''ttl'', JInt 60)]"
    by code_simp
  from put_one_managed_guard [OF f m, of mem_adapter ?req resp0]
  show ?thesis unfolding u a .
qed

text \<open>
  Claim C10. In every update call the guards run in the order managed, SOA, root NS: a
  managed recordset and a caller without the capability give the managed-records message
  whatever the type and the name of the recordset are, also for type SOA and for the NS
  recordset at the zone root; once the managed guard lets the call through, type SOA gives
  the SOA message without a zone lookup, and type NS with the name of the zone gives the
  root-NS message after the zone lookup.
\<close>

theorem put_one_guard_order:
  assumes "get_recordset api (req_context req) zid rid s = (Inr recordset, s1)"
  shows "(rs_managed recordset \<and> \<not> edit_managed_records (req_context req) \<longrightarrow>
            put_one api ad req resp zid rid (s, [])
              = (Inl (Raised (BadRequest ''Managed records may not be updated'')),
                 (s1, [GetRecordset zid rid])))
       \<and> (\<not> (rs_managed recordset \<and> \<not> edit_managed_records (req_context req))
            \<and> rs_type recordset = Some ''SOA'' \<longrightarrow>
            put_one api ad req resp zid rid (s, [])
              = (Inl (Raised (BadRequest ''Updating SOA recordsets is not allowed'')),
                 (s1, [GetRecordset zid rid])))
       \<and> (\<forall>z s2. \<not> (rs_managed recordset \<and> \<not> edit_managed_records (req_context req))
            \<and> rs_type recordset = Some ''NS''
            \<and> get_domain api (req_context req) zid s1 = (Inr z, s2)
            \<and> rs_name recordset = Some (zone_name z) \<longrightarrow>
            put_one api ad req resp zid rid (s, [])
              = (Inl (Raised (BadRequest ''Updating a root zone NS record is not allowed'')),
                 (s2, [GetRecordset zid rid, GetDomain zid])))"
proof (intro conjI allI impI)
  assume "rs_managed recordset \<and> \<not> edit_managed_records (req_context req)"
  then show "put_one api ad req resp zid rid (s, [])
              = (Inl (Raised (BadRequest ''Managed records may not be updated'')),
                 (s1, [GetRecordset zid rid]))"
    by (simp add: put_one_managed [OF assms])
next
  assume "\<not> (rs_managed recordset \<and> \<not> edit_managed_records (req_context req))
            \<and> rs_type recordset = Some ''SOA''"
  then show "put_one api ad req resp zid rid (s, [])
              = (Inl (Raised (BadRequest ''Updating SOA recordsets is not allowed'')),
                 (s1, [GetRecordset zid rid]))"
    by (simp add: put_one_soa [OF assms])
next
  fix z s2
  assume "\<not> (rs_managed recordset \<and> \<not> edit_managed_records (req_context req))
            \<and> rs_type recordset = Some ''NS''
            \<and> get_domain api (req_context req) zid s1 = (Inr z, s2)
            \<and> rs_name recordset = Some (zone_name z)"
  then show "put_one api ad req resp zid rid (s, [])
              = (Inl (Raised (BadRequest ''Updating a root zone NS record is not allowed'')),
                 (s2, [GetRecordset zid rid, GetDomain zid]))"
    by (simp add: put_one_root_ns [OF assms])
qed

theorem put_one_guard_order_witness:
  "put_one mem_api mem_adapter (mk_req user_ctx [(''ttl'', JInt 60)]) resp0 ''z1'' ''r-soa''
       (store0, [])
     = (Inl (Raised (BadRequest ''Managed records may not be updated'')),
        (store0, [GetRecordset ''z1'' ''r-soa'']))
   \<and> put_one mem_api mem_adapter (mk_req admin_ctx [(''ttl'', JInt 60)]) resp0 ''z1'' ''r-soa''
       (store0, [])
     = (Inl (Raised (BadRequest ''Updating SOA recordsets is not allowed'')),
        (store0, [GetRecordset ''z1'' ''r-soa'']))"
proof -
  let ?b = "[(''ttl'', JInt 60)]"
  have fu: "get_recordset mem_api (req_context (mk_req user_ctx ?b)) ''z1'' ''r-soa'' store0
              = (Inr rs_soa, store0)"
    by code_simp
  have fa: "get_recordset mem_api (req_context (mk_req admin_ctx ?b)) ''z1'' ''r-soa'' store0
              = (Inr rs_soa, store0)"
    by code_simp
  have m: "rs_managed rs_soa" and t: "rs_type rs_soa = Some ''SOA''"
    by code_simp+
  have u: "\<not> edit_managed_records (req_context (mk_req user_ctx ?b))"
    and a: "edit_managed_records (req_context (mk_req admin_ctx ?b))"
    by code_simp+
  from put_one_guard_order [OF fu, of mem_adapter resp0] m u
  have "put_one mem_api mem_adapter (mk_req user_ctx ?b) resp0 ''z1'' ''r-soa'' (store0, [])
     = (Inl (Raised (BadRequest ''Managed records may not be updated'')),
        (store0, [GetRecordset ''z1'' ''r-soa'']))"
    by blast
  moreover from put_one_guard_order [OF fa, of mem_adapter resp0] t a
  have "put_one mem_api mem_adapter (mk_req admin_ctx ?b) resp0 ''z1'' ''r-soa'' (store0, [])
     = (Inl (Raised (BadRequest ''Updating SOA recordsets is not allowed'')),
        (store0, [GetRecordset ''z1'' ''r-soa'']))"
    by blast
  ultimately show ?thesis ..
qed

text \<open>
  Claim C3. For every update call where the recordset fetched from the central service has
  type NS and its name is the name of the zone, the handler raises \<^verbatim>\<open>BadRequest\<close> and
  never calls the update of the central service, whatever the body of the request is; and
  the zone lookup is among the calls of an update only when the recordset fetched has type
  NS.
\<close>

theorem put_one_root_ns_rejected:
  "(\<forall>recordset s1 z s2.
       get_recordset api (req_context req) zid rid s = (Inr recordset, s1)
       \<and> rs_type recordset = Some ''NS''
       \<and> get_domain api (req_context req) zid s1 = (Inr z, s2)
       \<and> rs_name recordset = Some (zone_name z) \<longrightarrow>
       (\<exists>m. fst (put_one api ad req resp zid rid (s, [])) = Inl (Raised (BadRequest m)))
       \<and> (\<forall>r. UpdateRecordset r \<notin> set (calls_of (put_one api ad req resp zid rid (s, [])))))
   \<and> (GetDomain zid \<in> set (calls_of (put_one api ad req resp zid rid (s, []))) \<longrightarrow>
       (\<exists>recordset s1. get_recordset api (req_context req) zid rid s = (Inr recordset, s1)
          \<and> rs_type recordset = Some ''NS''))"
proof (intro conjI allI impI)
  fix recordset s1 z s2
  assume h: "get_recordset api (req_context req) zid rid s = (Inr recordset, s1)
       \<and> rs_type recordset = Some ''NS''
       \<and> get_domain api (req_context req) zid s1 = (Inr z, s2)
       \<and> rs_name recordset = Some (zone_name z)"
  show "\<exists>m. fst (put_one api ad req resp zid rid (s, [])) = Inl (Raised (BadRequest m))"
  proof (cases "rs_managed recordset \<and> \<not> edit_managed_records (req_context req)")
    case True
    with h show ?thesis by (simp add: put_one_managed [where recordset = recordset and ?s1.0 = s1])
  next
    case False
    with h show ?thesis
      by (simp add: put_one_root_ns [where recordset = recordset and ?s1.0 = s1 and z = z and ?s2.0 = s2])
  qed
  fix r
  show "UpdateRecordset r \<notin> set (calls_of (put_one api ad req resp zid rid (s, [])))"
  proof (cases "rs_managed recordset \<and> \<not> edit_managed_records (req_context req)")
    case True
    with h show ?thesis
      by (simp add: calls_of_def put_one_managed [where recordset = recordset and ?s1.0 = s1])
  next
    case False
    with h show ?thesis
      by (simp add: calls_of_def
            put_one_root_ns [where recordset = recordset and ?s1.0 = s1 and z = z and ?s2.0 = s2])
  qed
next
  assume "GetDomain zid \<in> set (calls_of (put_one api ad req resp zid rid (s, [])))"
  then show "\<exists>recordset s1. get_recordset api (req_context req) zid rid s = (Inr recordset, s1)
          \<and> rs_type recordset = Some ''NS''"
    by (rule put_one_zone_lookup_only_if)
qed

theorem put_one_root_ns_rejected_witness:
  "\<exists>m. fst (put_one mem_api mem_adapter (mk_req admin_ctx [(''ttl'', JInt 60)]) resp0
             ''z1'' ''r-ns'' (store0, [])) = Inl (Raised (BadRequest m))"
proof -
  let ?req = "mk_req admin_ctx [(''ttl'', JInt 60)]"
  have f: "get_recordset mem_api (req_context ?req) ''z1'' ''r-ns'' store0 = (Inr rs_ns, store0)"
    by code_simp
  have t: "rs_type rs_ns = Some ''NS''"
    by code_simp
  have z: "get_domain mem_api (req_context ?req) ''z1'' store0
             = (Inr \<lparr>zone_id = ''z1'', zone_name = ''example.com.''\<rparr>, store0)"
    by code_simp
  have n: "rs_name rs_ns = Some (zone_name \<lparr>zone_id = ''z1'', zone_name = ''example.com.''\<rparr>)"
    by code_simp
  from put_one_root_ns_rejected [of mem_api ?req "''z1''" "''r-ns''" store0 mem_adapter resp0]
    f t z n
  show ?thesis by blast
qed

end
